theory Spec2Isabelle
  imports Main "HOL-Library.Word"
begin

section \<open>The type descriptor of \<^verbatim>\<open>typedesc.h\<close>\<close>

text \<open>
  \<^verbatim>\<open>struct TypeDesc\<close> holds four \<^verbatim>\<open>unsigned char\<close> fields and one \<^verbatim>\<open>int\<close>.
  The bytes are 8-bit words; the \<^verbatim>\<open>int\<close> is a 32-bit word read as two's complement
  with \<open>sint\<close>. \<^verbatim>\<open>size_t\<close> is a word whose width \<open>'s\<close> is the platform's: the
  header itself branches on \<^verbatim>\<open>sizeof(size_t) > sizeof(int)\<close>.
\<close>

type_synonym uchar = "8 word"
type_synonym cint = "32 word"
type_synonym ulonglong = "64 word"

subsection \<open>The enumerations\<close>

datatype BASETYPE =
    UNKNOWN | NONE | UINT8 | INT8 | UINT16 | INT16 | UINT32 | INT32
  | UINT64 | INT64 | HALF | FLOAT | DOUBLE | STRING | PTR | USTRINGHASH | LASTBASE

text \<open>The enumerators count up from 0; \<^verbatim>\<open>static_cast<unsigned char>\<close> stores that number.\<close>

fun BASETYPE_code :: "BASETYPE \<Rightarrow> uchar" where
  "BASETYPE_code UNKNOWN = 0"
| "BASETYPE_code NONE = 1"
| "BASETYPE_code UINT8 = 2"
| "BASETYPE_code INT8 = 3"
| "BASETYPE_code UINT16 = 4"
| "BASETYPE_code INT16 = 5"
| "BASETYPE_code UINT32 = 6"
| "BASETYPE_code INT32 = 7"
| "BASETYPE_code UINT64 = 8"
| "BASETYPE_code INT64 = 9"
| "BASETYPE_code HALF = 10"
| "BASETYPE_code FLOAT = 11"
| "BASETYPE_code DOUBLE = 12"
| "BASETYPE_code STRING = 13"
| "BASETYPE_code PTR = 14"
| "BASETYPE_code USTRINGHASH = 15"
| "BASETYPE_code LASTBASE = 16"

datatype AGGREGATE = SCALAR | VEC2 | VEC3 | VEC4 | MATRIX33 | MATRIX44

fun AGGREGATE_code :: "AGGREGATE \<Rightarrow> uchar" where
  "AGGREGATE_code SCALAR = 1"
| "AGGREGATE_code VEC2 = 2"
| "AGGREGATE_code VEC3 = 3"
| "AGGREGATE_code VEC4 = 4"
| "AGGREGATE_code MATRIX33 = 9"
| "AGGREGATE_code MATRIX44 = 16"

text \<open>\<^verbatim>\<open>NOXFORM\<close> and \<^verbatim>\<open>NOSEMANTICS\<close> are two names of the value 0.\<close>

datatype VECSEMANTICS =
    NOSEMANTICS | COLOR | POINT | VECTOR | NORMAL | TIMECODE | KEYCODE | RATIONAL | BOX

abbreviation NOXFORM :: VECSEMANTICS where
  "NOXFORM \<equiv> NOSEMANTICS"

fun VECSEMANTICS_code :: "VECSEMANTICS \<Rightarrow> uchar" where
  "VECSEMANTICS_code NOSEMANTICS = 0"
| "VECSEMANTICS_code COLOR = 1"
| "VECSEMANTICS_code POINT = 2"
| "VECSEMANTICS_code VECTOR = 3"
| "VECSEMANTICS_code NORMAL = 4"
| "VECSEMANTICS_code TIMECODE = 5"
| "VECSEMANTICS_code KEYCODE = 6"
| "VECSEMANTICS_code RATIONAL = 7"
| "VECSEMANTICS_code BOX = 8"

subsection \<open>The struct and its constructors\<close>

record TypeDesc =
  basetype :: uchar
  aggregate :: uchar
  vecsemantics :: uchar
  reserved :: uchar
  arraylen :: cint

text \<open>
  What every constructor stores once the enumerators are cast to bytes:
  the three bytes given, \<^verbatim>\<open>reserved(0)\<close> and the array length.
\<close>

definition TypeDesc_bytes :: "uchar \<Rightarrow> uchar \<Rightarrow> uchar \<Rightarrow> cint \<Rightarrow> TypeDesc" where
  "TypeDesc_bytes b a v n =
     \<lparr>basetype = b, aggregate = a, vecsemantics = v, reserved = 0, arraylen = n\<rparr>"

text \<open>\<^verbatim>\<open>TypeDesc (BASETYPE btype, AGGREGATE agg, VECSEMANTICS semantics, int arraylen)\<close>\<close>

definition TypeDesc_ctor :: "BASETYPE \<Rightarrow> AGGREGATE \<Rightarrow> VECSEMANTICS \<Rightarrow> cint \<Rightarrow> TypeDesc" where
  "TypeDesc_ctor btype agg semantics n =
     TypeDesc_bytes (BASETYPE_code btype) (AGGREGATE_code agg) (VECSEMANTICS_code semantics) n"

text \<open>\<^verbatim>\<open>TypeDesc (BASETYPE btype)\<close>, the first constructor with its defaults.\<close>

definition TypeDesc_base :: "BASETYPE \<Rightarrow> TypeDesc" where
  "TypeDesc_base btype = TypeDesc_ctor btype SCALAR NOSEMANTICS 0"

text \<open>\<^verbatim>\<open>TypeDesc (BASETYPE btype, int arraylen)\<close>\<close>

definition TypeDesc_array :: "BASETYPE \<Rightarrow> cint \<Rightarrow> TypeDesc" where
  "TypeDesc_array btype n = TypeDesc_ctor btype SCALAR NOSEMANTICS n"

text \<open>\<^verbatim>\<open>TypeDesc (BASETYPE btype, AGGREGATE agg, int arraylen)\<close>\<close>

definition TypeDesc_agg_array :: "BASETYPE \<Rightarrow> AGGREGATE \<Rightarrow> cint \<Rightarrow> TypeDesc" where
  "TypeDesc_agg_array btype agg n = TypeDesc_ctor btype agg NOSEMANTICS n"

subsection \<open>The static values for commonly used types\<close>

text \<open>\<^verbatim>\<open>INT\<close> and \<^verbatim>\<open>UINT\<close> are the enumerators \<^verbatim>\<open>INT32\<close> and \<^verbatim>\<open>UINT32\<close>.\<close>

definition TypeUnknown :: TypeDesc where
  "TypeUnknown = TypeDesc_base UNKNOWN"

definition TypeFloat :: TypeDesc where
  "TypeFloat = TypeDesc_base FLOAT"

definition TypeColor :: TypeDesc where
  "TypeColor = TypeDesc_ctor FLOAT VEC3 COLOR 0"

definition TypePoint :: TypeDesc where
  "TypePoint = TypeDesc_ctor FLOAT VEC3 POINT 0"

definition TypeVector :: TypeDesc where
  "TypeVector = TypeDesc_ctor FLOAT VEC3 VECTOR 0"

definition TypeNormal :: TypeDesc where
  "TypeNormal = TypeDesc_ctor FLOAT VEC3 NORMAL 0"

definition TypeMatrix33 :: TypeDesc where
  "TypeMatrix33 = TypeDesc_ctor FLOAT MATRIX33 NOSEMANTICS 0"

definition TypeMatrix44 :: TypeDesc where
  "TypeMatrix44 = TypeDesc_ctor FLOAT MATRIX44 NOSEMANTICS 0"

definition TypeMatrix :: TypeDesc where
  "TypeMatrix = TypeMatrix44"

definition TypeFloat2 :: TypeDesc where
  "TypeFloat2 = TypeDesc_ctor FLOAT VEC2 NOSEMANTICS 0"

definition TypeVector2 :: TypeDesc where
  "TypeVector2 = TypeDesc_ctor FLOAT VEC2 VECTOR 0"

definition TypeFloat4 :: TypeDesc where
  "TypeFloat4 = TypeDesc_ctor FLOAT VEC4 NOSEMANTICS 0"

definition TypeVector4 :: TypeDesc where
  "TypeVector4 = TypeFloat4"

definition TypeString :: TypeDesc where
  "TypeString = TypeDesc_base STRING"

definition TypeInt :: TypeDesc where
  "TypeInt = TypeDesc_base INT32"

definition TypeUInt :: TypeDesc where
  "TypeUInt = TypeDesc_base UINT32"

definition TypeInt32 :: TypeDesc where
  "TypeInt32 = TypeDesc_base INT32"

definition TypeUInt32 :: TypeDesc where
  "TypeUInt32 = TypeDesc_base UINT32"

definition TypeInt16 :: TypeDesc where
  "TypeInt16 = TypeDesc_base INT16"

definition TypeUInt16 :: TypeDesc where
  "TypeUInt16 = TypeDesc_base UINT16"

definition TypeInt8 :: TypeDesc where
  "TypeInt8 = TypeDesc_base INT8"

definition TypeUInt8 :: TypeDesc where
  "TypeUInt8 = TypeDesc_base UINT8"

definition TypeInt64 :: TypeDesc where
  "TypeInt64 = TypeDesc_base INT64"

definition TypeUInt64 :: TypeDesc where
  "TypeUInt64 = TypeDesc_base UINT64"

definition TypeVector2i :: TypeDesc where
  "TypeVector2i = TypeDesc_ctor INT32 VEC2 NOSEMANTICS 0"

definition TypeVector3i :: TypeDesc where
  "TypeVector3i = TypeDesc_ctor INT32 VEC3 NOSEMANTICS 0"

definition TypeBox2 :: TypeDesc where
  "TypeBox2 = TypeDesc_ctor FLOAT VEC2 BOX 2"

definition TypeBox3 :: TypeDesc where
  "TypeBox3 = TypeDesc_ctor FLOAT VEC3 BOX 2"

definition TypeBox2i :: TypeDesc where
  "TypeBox2i = TypeDesc_ctor INT32 VEC2 BOX 2"

definition TypeBox3i :: TypeDesc where
  "TypeBox3i = TypeDesc_ctor INT32 VEC3 BOX 2"

definition TypeHalf :: TypeDesc where
  "TypeHalf = TypeDesc_base HALF"

definition TypeTimeCode :: TypeDesc where
  "TypeTimeCode = TypeDesc_ctor UINT32 SCALAR TIMECODE 2"

definition TypeKeyCode :: TypeDesc where
  "TypeKeyCode = TypeDesc_ctor INT32 SCALAR KEYCODE 7"

definition TypeRational :: TypeDesc where
  "TypeRational = TypeDesc_ctor INT32 VEC2 RATIONAL 0"

definition TypePointer :: TypeDesc where
  "TypePointer = TypeDesc_base PTR"

definition TypeUstringhash :: TypeDesc where
  "TypeUstringhash = TypeDesc_base USTRINGHASH"

subsection \<open>Array predicates\<close>

definition is_array :: "TypeDesc \<Rightarrow> bool" where
  "is_array t \<longleftrightarrow> arraylen t \<noteq> 0"

definition is_unsized_array :: "TypeDesc \<Rightarrow> bool" where
  "is_unsized_array t \<longleftrightarrow> sint (arraylen t) < 0"

definition is_sized_array :: "TypeDesc \<Rightarrow> bool" where
  "is_sized_array t \<longleftrightarrow> 0 < sint (arraylen t)"

subsection \<open>Projections\<close>

text \<open>\<^verbatim>\<open>TypeDesc t (*this);  t.arraylen = 0;  return t;\<close>\<close>

definition elementtype :: "TypeDesc \<Rightarrow> TypeDesc" where
  "elementtype t = t\<lparr>arraylen := 0\<rparr>"

text \<open>
  \<^verbatim>\<open>return TypeDesc(BASETYPE(basetype));\<close> The byte goes to the enumeration and
  back to a byte unchanged; the other arguments are the constructor's defaults.
\<close>

definition scalartype :: "TypeDesc \<Rightarrow> TypeDesc" where
  "scalartype t =
     TypeDesc_bytes (basetype t) (AGGREGATE_code SCALAR) (VECSEMANTICS_code NOSEMANTICS) 0"

text \<open>\<^verbatim>\<open>void unarray (void) { arraylen = 0; }\<close>, the one mutator, as state passing.\<close>

definition unarray :: "TypeDesc \<Rightarrow> TypeDesc" where
  "unarray t = t\<lparr>arraylen := 0\<rparr>"

subsection \<open>Comparisons\<close>

text \<open>\<^verbatim>\<open>operator== (const TypeDesc &t)\<close>: four fields, \<^verbatim>\<open>reserved\<close> is not compared.\<close>

definition TypeDesc_eq :: "TypeDesc \<Rightarrow> TypeDesc \<Rightarrow> bool" where
  "TypeDesc_eq s t \<longleftrightarrow>
     basetype s = basetype t \<and> aggregate s = aggregate t \<and>
     vecsemantics s = vecsemantics t \<and> arraylen s = arraylen t"

definition TypeDesc_ne :: "TypeDesc \<Rightarrow> TypeDesc \<Rightarrow> bool" where
  "TypeDesc_ne s t \<longleftrightarrow> \<not> TypeDesc_eq s t"

text \<open>\<^verbatim>\<open>operator== (const TypeDesc &t, BASETYPE b)\<close> and its mirror image.\<close>

definition eq_BASETYPE :: "TypeDesc \<Rightarrow> BASETYPE \<Rightarrow> bool" where
  "eq_BASETYPE t b \<longleftrightarrow>
     basetype t = BASETYPE_code b \<and> aggregate t = AGGREGATE_code SCALAR \<and> \<not> is_array t"

definition BASETYPE_eq :: "BASETYPE \<Rightarrow> TypeDesc \<Rightarrow> bool" where
  "BASETYPE_eq b t \<longleftrightarrow>
     basetype t = BASETYPE_code b \<and> aggregate t = AGGREGATE_code SCALAR \<and> \<not> is_array t"

definition ne_BASETYPE :: "TypeDesc \<Rightarrow> BASETYPE \<Rightarrow> bool" where
  "ne_BASETYPE t b \<longleftrightarrow>
     basetype t \<noteq> BASETYPE_code b \<or> aggregate t \<noteq> AGGREGATE_code SCALAR \<or> is_array t"

definition BASETYPE_ne :: "BASETYPE \<Rightarrow> TypeDesc \<Rightarrow> bool" where
  "BASETYPE_ne b t \<longleftrightarrow>
     basetype t \<noteq> BASETYPE_code b \<or> aggregate t \<noteq> AGGREGATE_code SCALAR \<or> is_array t"

text \<open>The friend function \<^verbatim>\<open>equivalent (a, b)\<close> and the member \<^verbatim>\<open>a.equivalent (b)\<close>.\<close>

definition equivalent :: "TypeDesc \<Rightarrow> TypeDesc \<Rightarrow> bool" where
  "equivalent a b \<longleftrightarrow>
     basetype a = basetype b \<and> aggregate a = aggregate b \<and>
     (arraylen a = arraylen b \<or> (is_unsized_array a \<and> is_sized_array b)
                              \<or> (is_sized_array a \<and> is_unsized_array b))"

definition equivalent_member :: "TypeDesc \<Rightarrow> TypeDesc \<Rightarrow> bool" where
  "equivalent_member this b \<longleftrightarrow>
     basetype this = basetype b \<and> aggregate this = aggregate b \<and>
     (arraylen this = arraylen b \<or> (is_unsized_array this \<and> is_sized_array b)
                                 \<or> (is_sized_array this \<and> is_unsized_array b))"

subsection \<open>Counts and sizes\<close>

datatype failure = AssertionFailed

text \<open>
  Modelled from the spec: the macro \<^verbatim>\<open>OIIO_DASSERT_MSG\<close> comes from \<^verbatim>\<open>dassert.h\<close>,
  which is not among the sources. The specification has misuse of the length-dependent
  queries ``caught by an assertion/fatal check in debug builds'': in a debug build a
  false condition is fatal, in any other build the check is compiled away. The flag
  \<open>debug\<close> is the build.
\<close>

definition OIIO_DASSERT_MSG :: "bool \<Rightarrow> bool \<Rightarrow> failure + unit" where
  "OIIO_DASSERT_MSG debug cond = (if debug \<and> \<not> cond then Inl AssertionFailed else Inr ())"

text \<open>
  \<^verbatim>\<open>size_t numelements ()\<close>: the \<^verbatim>\<open>int\<close> chosen by the conditional is converted to
  \<^verbatim>\<open>size_t\<close> on return (\<open>scast\<close>: the value modulo the width of \<^verbatim>\<open>size_t\<close>).
\<close>

definition numelements :: "bool \<Rightarrow> TypeDesc \<Rightarrow> failure + 's::len word" where
  "numelements debug t =
     (case OIIO_DASSERT_MSG debug (0 \<le> sint (arraylen t)) of
        Inl e \<Rightarrow> Inl e
      | Inr _ \<Rightarrow> Inr (scast (if 1 \<le> sint (arraylen t) then arraylen t else 1)))"

text \<open>\<^verbatim>\<open>return numelements() * aggregate;\<close> in \<^verbatim>\<open>size_t\<close> arithmetic.\<close>

definition basevalues :: "bool \<Rightarrow> TypeDesc \<Rightarrow> failure + 's::len word" where
  "basevalues debug t =
     (case numelements debug t of
        Inl e \<Rightarrow> Inl e
      | Inr n \<Rightarrow> Inr (n * ucast (aggregate t)))"

text \<open>
  Modelled from the spec: \<^verbatim>\<open>size_t basesize ()\<close> is declared in the header and
  defined outside the sources; the functions that call it take it as the parameter
  \<open>basesize\<close>, a lookup from the base-kind byte to a \<^verbatim>\<open>size_t\<close>. This is one such
  lookup, to evaluate them with: ``1/2/4/8 bytes for integers and floats of matching
  width; platform pointer width for the pointer kind; fixed width for the string-hash
  kind; a sentinel size for the string kind''. The three sizes the specification
  leaves open are the arguments \<open>str\<close>, \<open>ptr\<close> and \<open>hash\<close>; every other byte has
  size 0.
\<close>

definition basesize_lookup :: "'s::len word \<Rightarrow> 's word \<Rightarrow> 's word \<Rightarrow> uchar \<Rightarrow> 's word" where
  "basesize_lookup str ptr hash b =
     (if b = BASETYPE_code UINT8 \<or> b = BASETYPE_code INT8 then 1
      else if b = BASETYPE_code UINT16 \<or> b = BASETYPE_code INT16 \<or> b = BASETYPE_code HALF then 2
      else if b = BASETYPE_code UINT32 \<or> b = BASETYPE_code INT32 \<or> b = BASETYPE_code FLOAT then 4
      else if b = BASETYPE_code UINT64 \<or> b = BASETYPE_code INT64 \<or> b = BASETYPE_code DOUBLE then 8
      else if b = BASETYPE_code STRING then str
      else if b = BASETYPE_code PTR then ptr
      else if b = BASETYPE_code USTRINGHASH then hash
      else 0)"

text \<open>\<^verbatim>\<open>size_t elementsize () { return aggregate * basesize(); }\<close>\<close>

definition elementsize :: "(uchar \<Rightarrow> 's::len word) \<Rightarrow> TypeDesc \<Rightarrow> 's word" where
  "elementsize basesize t = ucast (aggregate t) * basesize (basetype t)"

text \<open>
  \<^verbatim>\<open>size_t size ()\<close>. \<^verbatim>\<open>sizeof(int)\<close> is 4, \<^verbatim>\<open>sizeof(size_t)\<close> is the width of \<open>'s\<close> in
  bytes, \<^verbatim>\<open>unsigned long long\<close> has 64 bits, and \<^verbatim>\<open>numeric_limits<size_t>::max()\<close> is
  the word \<open>- 1\<close>.
\<close>

definition TypeDesc_size :: "bool \<Rightarrow> (uchar \<Rightarrow> 's::len word) \<Rightarrow> TypeDesc \<Rightarrow> failure + 's word" where
  "TypeDesc_size debug basesize t =
     (case OIIO_DASSERT_MSG debug (0 \<le> sint (arraylen t)) of
        Inl e \<Rightarrow> Inl e
      | Inr _ \<Rightarrow>
          (let a = (scast (if 0 < sint (arraylen t) then arraylen t else 1) :: 's word) in
           if 4 < LENGTH('s) div 8 then Inr (a * elementsize basesize t)
           else
             (let s = (ucast a :: ulonglong) * ucast (elementsize basesize t);
                  toobig = (- 1 :: 's word)
              in Inr (if s < ucast toobig then ucast s else toobig))))"

subsection \<open>Parsing a type name\<close>

text \<open>
  Modelled from the spec: \<^verbatim>\<open>TypeDesc::fromstring\<close> and the constructor from a string
  are declared in the header and defined outside the sources. The specification gives
  the name syntax (a keyword, optionally followed by \<^verbatim>\<open>[N]\<close> or \<^verbatim>\<open>[]\<close>), the two causes
  of failure (``unrecognized keyword, malformed bracket expression'') and the outcome of
  a failure. The two causes are the values of this type.
\<close>

datatype parse_failure = UnrecognizedKeyword | MalformedBracket

text \<open>
  Modelled from the spec: the characters of a keyword. The keywords the specification
  lists (\<^verbatim>\<open>float\<close>, \<^verbatim>\<open>int32\<close>, \<^verbatim>\<open>uint16\<close>, \<^verbatim>\<open>matrix33\<close>, \<^verbatim>\<open>vector2\<close>, ...) are runs of
  letters and digits; the keyword of an input is its longest leading run of letters,
  digits and underscores.
\<close>

definition is_name_char :: "char \<Rightarrow> bool" where
  "is_name_char c \<longleftrightarrow>
     c \<in> set ''abcdefghijklmnopqrstuvwxyzABCDEFGHIJKLMNOPQRSTUVWXYZ0123456789_''"

text \<open>Modelled from the spec: the characters of \<^verbatim>\<open>N\<close>, ``a non-negative integer''.\<close>

definition is_digit :: "char \<Rightarrow> bool" where
  "is_digit c \<longleftrightarrow> c \<in> set ''0123456789''"

text \<open>
  Modelled from the spec: blanks are allowed inside the brackets, as in the
  specification's example name \<^verbatim>\<open>uint16[ ]\<close>.
\<close>

definition is_blank :: "char \<Rightarrow> bool" where
  "is_blank c \<longleftrightarrow> c = CHR '' ''"

text \<open>Modelled from the spec: the value of a run of decimal digits.\<close>

definition decimal :: "string \<Rightarrow> nat" where
  "decimal ds = foldl (\<lambda>n c. 10 * n + (of_char c - 48)) 0 ds"

text \<open>
  Modelled from the spec: ``Recognized aggregate/semantic keywords (\<^verbatim>\<open>point\<close>,
  \<^verbatim>\<open>vector\<close>, \<^verbatim>\<open>normal\<close>, \<^verbatim>\<open>color\<close>, \<^verbatim>\<open>matrix\<close>/\<^verbatim>\<open>matrix44\<close>, \<^verbatim>\<open>matrix33\<close>, \<^verbatim>\<open>vector2\<close>,
  \<^verbatim>\<open>vector4\<close>) expand to a full base+aggregate+semantics combination in one token'':
  the header's constant of that name.
\<close>

definition aggregate_keyword :: "string \<Rightarrow> TypeDesc option" where
  "aggregate_keyword w =
     (if w = ''point'' then Some TypePoint
      else if w = ''vector'' then Some TypeVector
      else if w = ''normal'' then Some TypeNormal
      else if w = ''color'' then Some TypeColor
      else if w = ''matrix'' \<or> w = ''matrix44'' then Some TypeMatrix44
      else if w = ''matrix33'' then Some TypeMatrix33
      else if w = ''vector2'' then Some TypeVector2
      else if w = ''vector4'' then Some TypeVector4
      else None)"

text \<open>
  Modelled from the spec: ``Recognized base-kind keywords map directly to base kind''.
  The specification does not list the base-kind keywords, so their table is the
  parameter \<open>basekeyword\<close>. The empty word is no keyword.
\<close>

definition keyword :: "(string \<Rightarrow> BASETYPE option) \<Rightarrow> string \<Rightarrow> TypeDesc option" where
  "keyword basekeyword w =
     (if w = [] then None
      else case basekeyword w of
             Some b \<Rightarrow> Some (TypeDesc_base b)
           | None \<Rightarrow> aggregate_keyword w)"

text \<open>
  Modelled from the spec: the base-kind keywords that the specification and the
  header's comments do name (\<^verbatim>\<open>float\<close>, \<^verbatim>\<open>int\<close> and its alias \<^verbatim>\<open>int32\<close>, \<^verbatim>\<open>uint16\<close>),
  a table to evaluate the parser with.
\<close>

definition basekeyword_named :: "string \<Rightarrow> BASETYPE option" where
  "basekeyword_named w =
     (if w = ''float'' then Some FLOAT
      else if w = ''int'' \<or> w = ''int32'' then Some INT32
      else if w = ''uint16'' then Some UINT16
      else None)"

text \<open>
  Modelled from the spec: ``Optional trailing \<^verbatim>\<open>[N]\<close> (N a non-negative integer) sets a
  fixed array length; a bare trailing \<^verbatim>\<open>[]\<close> sets an unresolved (negative) array
  length; absence of brackets leaves array length 0'', and \<^verbatim>\<open>int[]\<close> has array length
  \<open>-1\<close>. The result is the array length, if there are brackets, and the input left
  after them; an opening bracket that is not closed after the optional number is
  malformed.
\<close>

definition parse_brackets :: "string \<Rightarrow> parse_failure + (cint option \<times> string)" where
  "parse_brackets rest =
     (case rest of
        [] \<Rightarrow> Inr (None, rest)
      | c # r1 \<Rightarrow>
          if c \<noteq> CHR ''['' then Inr (None, rest)
          else
            (let r2 = dropWhile is_blank r1;
                 ds = takeWhile is_digit r2;
                 r3 = dropWhile is_blank (dropWhile is_digit r2)
             in case r3 of
                  [] \<Rightarrow> Inl MalformedBracket
                | d # r4 \<Rightarrow>
                    if d = CHR '']''
                    then Inr (Some (if ds = [] then - 1 else of_nat (decimal ds)), r4)
                    else Inl MalformedBracket))"

text \<open>
  Modelled from the spec: ``given a human-readable type name, produce the encoded
  descriptor and report how many leading characters of the input were consumed''.
\<close>

definition parse_typename ::
  "(string \<Rightarrow> BASETYPE option) \<Rightarrow> string \<Rightarrow> parse_failure + (TypeDesc \<times> nat)" where
  "parse_typename basekeyword s =
     (case keyword basekeyword (takeWhile is_name_char s) of
        None \<Rightarrow> Inl UnrecognizedKeyword
      | Some t \<Rightarrow>
          (case parse_brackets (dropWhile is_name_char s) of
             Inl e \<Rightarrow> Inl e
           | Inr (len, remaining) \<Rightarrow>
               Inr (case len of None \<Rightarrow> t | Some n \<Rightarrow> t\<lparr>arraylen := n\<rparr>,
                    length s - length remaining)))"

text \<open>
  Modelled from the spec: \<^verbatim>\<open>size_t fromstring (string_view typestring)\<close>, with the
  descriptor it is called on passed in as \<open>this\<close> and the new one returned beside the
  count. ``On any parse failure the descriptor is left at the "unknown" state and zero
  characters are reported consumed.''
\<close>

definition fromstring ::
  "(string \<Rightarrow> BASETYPE option) \<Rightarrow> TypeDesc \<Rightarrow> string \<Rightarrow> TypeDesc \<times> nat" where
  "fromstring basekeyword this s =
     (case parse_typename basekeyword s of
        Inl e \<Rightarrow> (TypeUnknown, 0)
      | Inr r \<Rightarrow> r)"

text \<open>
  Modelled from the spec: \<^verbatim>\<open>TypeDesc (string_view typestring)\<close>, the constructor, which
  keeps the descriptor and drops the count.
\<close>

definition TypeDesc_of_string :: "(string \<Rightarrow> BASETYPE option) \<Rightarrow> string \<Rightarrow> TypeDesc" where
  "TypeDesc_of_string basekeyword s = fst (fromstring basekeyword (TypeDesc_base UNKNOWN) s)"

section \<open>Equivalence and equality\<close>

text \<open>
  C2. Two descriptors are equivalent exactly when they have the same base kind and the
  same aggregate shape and their array lengths either are the same or one is negative
  (unresolved) and the other positive (fixed); the member function agrees with the
  friend function, and replacing the semantics hints of either side changes nothing.
\<close>

theorem equivalent_iff:
  "(equivalent a b \<longleftrightarrow>
      basetype a = basetype b \<and> aggregate a = aggregate b \<and>
      (arraylen a = arraylen b
       \<or> (sint (arraylen a) < 0 \<and> 0 < sint (arraylen b))
       \<or> (0 < sint (arraylen a) \<and> sint (arraylen b) < 0)))
   \<and> equivalent_member a b = equivalent a b
   \<and> equivalent (a\<lparr>vecsemantics := v\<rparr>) (b\<lparr>vecsemantics := w\<rparr>) = equivalent a b"
  by (simp add: equivalent_def equivalent_member_def is_unsized_array_def is_sized_array_def)

text \<open>
  C3. Equivalence is symmetric; descriptors that compare equal with \<^verbatim>\<open>operator==\<close>
  are equivalent; and \<^verbatim>\<open>float[3]\<close> and \<^verbatim>\<open>float[]\<close>, which differ only in sized
  against unresolved array length, are equivalent but not equal.
\<close>

theorem equivalent_sym_eq_not_conversely:
  "(\<forall>a b. equivalent a b = equivalent b a)
   \<and> (\<forall>a b. TypeDesc_eq a b \<longrightarrow> equivalent a b)
   \<and> equivalent (TypeDesc_array FLOAT 3) (TypeDesc_array FLOAT (- 1))
   \<and> \<not> TypeDesc_eq (TypeDesc_array FLOAT 3) (TypeDesc_array FLOAT (- 1))"
proof (intro conjI allI impI)
  fix a b
  show "equivalent a b = equivalent b a"
    unfolding equivalent_def by (rule iffI; elim conjE disjE; simp)
next
  fix a b
  assume "TypeDesc_eq a b"
  then show "equivalent a b"
    by (simp add: TypeDesc_eq_def equivalent_def)
next
  show "equivalent (TypeDesc_array FLOAT 3) (TypeDesc_array FLOAT (- 1))"
    by (simp add: equivalent_def TypeDesc_array_def TypeDesc_ctor_def TypeDesc_bytes_def
        is_unsized_array_def is_sized_array_def)
next
  show "\<not> TypeDesc_eq (TypeDesc_array FLOAT 3) (TypeDesc_array FLOAT (- 1))"
    by (simp add: TypeDesc_eq_def TypeDesc_array_def TypeDesc_ctor_def TypeDesc_bytes_def)
qed

theorem equivalent_sym_eq_not_conversely_witness:
  "TypeDesc_eq TypeColor (TypeColor\<lparr>reserved := 7\<rparr>)
   \<and> equivalent TypeColor (TypeColor\<lparr>reserved := 7\<rparr>)"
proof -
  have eq: "TypeDesc_eq TypeColor (TypeColor\<lparr>reserved := 7\<rparr>)"
    by (simp add: TypeDesc_eq_def)
  from equivalent_sym_eq_not_conversely
  have "TypeDesc_eq TypeColor (TypeColor\<lparr>reserved := 7\<rparr>)
          \<longrightarrow> equivalent TypeColor (TypeColor\<lparr>reserved := 7\<rparr>)"
    by blast
  with eq show ?thesis by simp
qed

text \<open>
  C10. Equivalence is not transitive: for any base kind and aggregate, two sized arrays
  of different positive lengths \<open>n\<close> and \<open>m\<close> are each equivalent to the unsized array
  (any negative length \<open>k\<close>) but not to each other. And an unsized array is never
  equivalent to a descriptor that is not an array.
\<close>

theorem equivalent_not_transitive:
  "(0 < sint n \<and> 0 < sint m \<and> n \<noteq> m \<and> sint k < 0 \<longrightarrow>
      equivalent (TypeDesc_agg_array b g n) (TypeDesc_agg_array b g k)
      \<and> equivalent (TypeDesc_agg_array b g k) (TypeDesc_agg_array b g m)
      \<and> \<not> equivalent (TypeDesc_agg_array b g n) (TypeDesc_agg_array b g m))
   \<and> (is_unsized_array u \<and> \<not> is_array t \<longrightarrow> \<not> equivalent u t \<and> \<not> equivalent t u)"
proof (intro conjI impI)
  assume h: "0 < sint n \<and> 0 < sint m \<and> n \<noteq> m \<and> sint k < 0"
  then show "equivalent (TypeDesc_agg_array b g n) (TypeDesc_agg_array b g k)"
    and "equivalent (TypeDesc_agg_array b g k) (TypeDesc_agg_array b g m)"
    by (simp_all add: equivalent_def TypeDesc_agg_array_def TypeDesc_ctor_def TypeDesc_bytes_def
        is_unsized_array_def is_sized_array_def)
  from h have "\<not> sint n < 0" and "\<not> sint m < 0" by simp_all
  with h show "\<not> equivalent (TypeDesc_agg_array b g n) (TypeDesc_agg_array b g m)"
    by (simp add: equivalent_def TypeDesc_agg_array_def TypeDesc_ctor_def TypeDesc_bytes_def
        is_unsized_array_def is_sized_array_def)
next
  assume h: "is_unsized_array u \<and> \<not> is_array t"
  then have t0: "arraylen t = 0" and u: "sint (arraylen u) < 0"
    by (simp_all add: is_array_def is_unsized_array_def)
  from u have ne: "arraylen u \<noteq> 0" by auto
  from t0 ne u show "\<not> equivalent u t"
    by (simp add: equivalent_def is_unsized_array_def is_sized_array_def)
  from t0 ne u show "\<not> equivalent t u"
    by (simp add: equivalent_def is_unsized_array_def is_sized_array_def)
qed

theorem equivalent_not_transitive_witness:
  "equivalent (TypeDesc_agg_array FLOAT VEC3 3) (TypeDesc_agg_array FLOAT VEC3 (- 1))
   \<and> equivalent (TypeDesc_agg_array FLOAT VEC3 (- 1)) (TypeDesc_agg_array FLOAT VEC3 5)
   \<and> \<not> equivalent (TypeDesc_agg_array FLOAT VEC3 3) (TypeDesc_agg_array FLOAT VEC3 5)
   \<and> is_unsized_array (TypeDesc_array FLOAT (- 1)) \<and> \<not> is_array TypeFloat
   \<and> \<not> equivalent (TypeDesc_array FLOAT (- 1)) TypeFloat
   \<and> \<not> equivalent TypeFloat (TypeDesc_array FLOAT (- 1))"
proof -
  have h1: "0 < sint (3 :: cint) \<and> 0 < sint (5 :: cint) \<and> (3 :: cint) \<noteq> 5 \<and> sint (- 1 :: cint) < 0"
    by simp
  have h2: "is_unsized_array (TypeDesc_array FLOAT (- 1)) \<and> \<not> is_array TypeFloat"
    by (simp add: is_unsized_array_def is_array_def TypeFloat_def TypeDesc_base_def
        TypeDesc_array_def TypeDesc_ctor_def TypeDesc_bytes_def)
  from equivalent_not_transitive [where n = 3 and m = 5 and k = "- 1" and b = FLOAT and g = VEC3
      and u = "TypeDesc_array FLOAT (- 1)" and t = TypeFloat]
    h1 h2
  show ?thesis by blast
qed

section \<open>Comparison with a bare base kind\<close>

text \<open>
  C7. A descriptor compares equal to a bare base kind \<open>b\<close>, with either operand order,
  only if its base kind is \<open>b\<close>, its aggregate is scalar and it is not an array.
\<close>

theorem eq_BASETYPE_only_if:
  "(eq_BASETYPE t b \<longrightarrow>
      basetype t = BASETYPE_code b \<and> aggregate t = AGGREGATE_code SCALAR \<and> arraylen t = 0)
   \<and> (BASETYPE_eq b t \<longrightarrow>
      basetype t = BASETYPE_code b \<and> aggregate t = AGGREGATE_code SCALAR \<and> arraylen t = 0)"
  by (simp add: eq_BASETYPE_def BASETYPE_eq_def is_array_def)

theorem eq_BASETYPE_only_if_witness:
  "eq_BASETYPE TypeFloat FLOAT \<and> BASETYPE_eq FLOAT TypeFloat
   \<and> basetype TypeFloat = BASETYPE_code FLOAT
   \<and> aggregate TypeFloat = AGGREGATE_code SCALAR \<and> arraylen TypeFloat = 0"
proof -
  have h: "eq_BASETYPE TypeFloat FLOAT \<and> BASETYPE_eq FLOAT TypeFloat"
    by (simp add: eq_BASETYPE_def BASETYPE_eq_def is_array_def TypeFloat_def TypeDesc_base_def
        TypeDesc_ctor_def TypeDesc_bytes_def)
  with eq_BASETYPE_only_if [where t = TypeFloat and b = FLOAT] show ?thesis by blast
qed

section \<open>Stripping the array and the aggregate\<close>

text \<open>
  C8, as the claim states it, fails for \<^verbatim>\<open>scalartype\<close>: the scalar type of the colour
  descriptor is not the colour descriptor with its array length and aggregate reset,
  because its semantics hint is reset as well.
\<close>

theorem scalartype_keeps_semantics_counterexample:
  "scalartype TypeColor \<noteq> TypeColor\<lparr>arraylen := 0, aggregate := AGGREGATE_code SCALAR\<rparr>
   \<and> vecsemantics (scalartype TypeColor) \<noteq> vecsemantics TypeColor"
  by (simp add: scalartype_def TypeColor_def TypeDesc_ctor_def TypeDesc_bytes_def)

text \<open>
  C8, amended. \<^verbatim>\<open>elementtype\<close> returns its descriptor with the array length set to 0
  and every other field unchanged. \<^verbatim>\<open>scalartype\<close> returns the descriptor built from
  the base kind alone: the base kind is kept, the aggregate is scalar, the semantics
  hint is \<^verbatim>\<open>NOSEMANTICS\<close>, the reserved byte is 0 and the array length is 0. Both are
  total functions of the descriptor.
\<close>

theorem elementtype_scalartype_fields:
  "elementtype t = t\<lparr>arraylen := 0\<rparr>
   \<and> basetype (elementtype t) = basetype t
   \<and> aggregate (elementtype t) = aggregate t
   \<and> vecsemantics (elementtype t) = vecsemantics t
   \<and> reserved (elementtype t) = reserved t
   \<and> arraylen (elementtype t) = 0
   \<and> scalartype t = t\<lparr>arraylen := 0, aggregate := AGGREGATE_code SCALAR,
                       vecsemantics := VECSEMANTICS_code NOSEMANTICS, reserved := 0\<rparr>
   \<and> basetype (scalartype t) = basetype t
   \<and> aggregate (scalartype t) = 1
   \<and> vecsemantics (scalartype t) = 0
   \<and> arraylen (scalartype t) = 0"
  by (simp add: elementtype_def scalartype_def TypeDesc_bytes_def)

section \<open>Counts and sizes\<close>

text \<open>Conversions and products that do not wrap.\<close>

lemma unat_scast_nonneg:
  fixes x :: cint
  assumes "0 \<le> sint x" and "32 \<le> LENGTH('s::len)"
  shows "unat (scast x :: 's word) = nat (sint x)"
proof -
  have "sint x < 2 ^ 31" using sint_lt [of x] by simp
  also have "(2::int) ^ 31 < 2 ^ LENGTH('s)"
    by (rule power_strict_increasing) (use assms in auto)
  finally have m: "sint x mod 2 ^ LENGTH('s) = sint x" using assms by simp
  have "uint (word_of_int (sint x) :: 's word) = sint x"
    by (simp only: uint_word_of_int m)
  then show ?thesis by (simp add: unat_eq_nat_uint)
qed

lemma unat_ucast_fits:
  fixes x :: "'a::len word"
  assumes "unat x < 2 ^ LENGTH('b::len)"
  shows "unat (ucast x :: 'b word) = unat x"
  using assms by (simp add: unsigned_ucast_eq take_bit_nat_eq_self)

lemma unat_mult_fits:
  fixes x y :: "'a::len word"
  assumes "unat x * unat y < 2 ^ LENGTH('a)"
  shows "unat (x * y) = unat x * unat y"
  using assms by (simp add: unat_mult_lem)

lemma unat_max_size: "unat (- 1 :: 'a::len word) = 2 ^ LENGTH('a) - 1"
  by (simp add: unsigned_minus_1_eq_mask mask_eq_exp_minus_1)


lemma numelements_ok:
  fixes t :: TypeDesc
  assumes "0 \<le> sint (arraylen t)" and "32 \<le> LENGTH('s::len)"
  shows "\<exists>n :: 's word. numelements debug t = Inr n \<and> unat n = nat (max (sint (arraylen t)) 1)
           \<and> n = scast (if 0 < sint (arraylen t) then arraylen t else 1)"
proof (cases "1 \<le> sint (arraylen t)")
  case True
  then have "unat (scast (arraylen t) :: 's word) = nat (sint (arraylen t))"
    using assms by (simp add: unat_scast_nonneg)
  with True assms show ?thesis
    by (simp add: numelements_def OIIO_DASSERT_MSG_def max_def)
next
  case False
  with assms show ?thesis
    by (simp add: numelements_def OIIO_DASSERT_MSG_def max_def)
qed

lemma elementsize_exact:
  fixes basesize :: "uchar \<Rightarrow> 's::len word"
  assumes "32 \<le> LENGTH('s)" and "unat (basesize (basetype t)) \<le> 2 ^ 24"
  shows "unat (elementsize basesize t) = unat (aggregate t) * unat (basesize (basetype t))"
    and "unat (aggregate t) * unat (basesize (basetype t)) < 2 ^ 32"
proof -
  let ?A = "unat (aggregate t)" and ?B = "unat (basesize (basetype t))"
  have a: "?A \<le> 255" using unsigned_less [of "aggregate t", where 'a = nat] by simp
  have "?A * ?B \<le> 255 * 2 ^ 24"
    using a assms(2) by (rule mult_mono) simp_all
  then have b': "?A * ?B < 4294967296" by simp
  then show b: "?A * ?B < 2 ^ 32" by simp
  have "(2::nat) ^ 32 \<le> 2 ^ LENGTH('s)"
    by (rule power_increasing) (use assms(1) in simp_all)
  then have le: "(4294967296::nat) \<le> 2 ^ LENGTH('s)" by simp
  have "?A < 2 ^ LENGTH('s)" using a le by linarith
  then have u: "unat (ucast (aggregate t) :: 's word) = ?A"
    by (rule unat_ucast_fits)
  have "?A * ?B < 2 ^ LENGTH('s)"
    using b' le by (rule less_le_trans)
  then have "unat (ucast (aggregate t) :: 's word) * ?B < 2 ^ LENGTH('s)"
    by (simp only: u)
  then have "unat (ucast (aggregate t) * basesize (basetype t)) = unat (ucast (aggregate t) :: 's word) * ?B"
    by (rule unat_mult_fits)
  with u show "unat (elementsize basesize t) = ?A * ?B"
    by (simp add: elementsize_def)
qed


text \<open>
  C1. For a descriptor whose array length is not negative, on a platform whose
  \<^verbatim>\<open>size_t\<close> has 32 or 64 bits and for a \<^verbatim>\<open>basesize\<close> lookup whose entry is at most
  \<open>2\<^sup>2\<^sup>4\<close> bytes, \<^verbatim>\<open>size()\<close> returns normally, and its value is the product of
  \<^verbatim>\<open>numelements()\<close>, the aggregate and the base size, computed without wrap-around, or
  the largest \<^verbatim>\<open>size_t\<close> when the product exceeds it.
\<close>

theorem size_saturating_product:
  fixes basesize :: "uchar \<Rightarrow> 's::len word"
  assumes nonneg: "0 \<le> sint (arraylen t)"
    and platform: "LENGTH('s) = 32 \<or> LENGTH('s) = 64"
    and table: "unat (basesize (basetype t)) \<le> 2 ^ 24"
  shows "\<exists>(n :: 's word) r. numelements debug t = Inr n \<and> TypeDesc_size debug basesize t = Inr r
           \<and> unat r = min (unat n * unat (aggregate t) * unat (basesize (basetype t)))
                          (2 ^ LENGTH('s) - 1)"
proof -
  define a :: "'s word" where "a = scast (if 0 < sint (arraylen t) then arraylen t else 1)"
  define es where "es = elementsize basesize t"
  define E where "E = unat (aggregate t) * unat (basesize (basetype t))"
  from platform have wide: "32 \<le> LENGTH('s)" by auto
  from numelements_ok [OF nonneg wide, of debug]
  have n: "numelements debug t = Inr a" and N: "unat a = nat (max (sint (arraylen t)) 1)"
    by (auto simp: a_def)
  have e: "unat es = E" and E: "E < 2 ^ 32"
    unfolding es_def E_def using wide table by (rule elementsize_exact)+
  have "sint (arraylen t) < 2 ^ 31" using sint_lt [of "arraylen t"] by simp
  then have Nb: "unat a \<le> 2147483648" unfolding N by simp
  have "unat a * E \<le> 2147483648 * 4294967296"
    using Nb E by (intro mult_mono) simp_all
  then have P: "unat a * E < 9223372036854775809" by simp
  have pass: "OIIO_DASSERT_MSG debug (0 \<le> sint (arraylen t)) = Inr ()"
    using nonneg by (simp add: OIIO_DASSERT_MSG_def)
  have goal: "\<exists>r. TypeDesc_size debug basesize t = Inr r \<and> unat r = min (unat a * E) (2 ^ LENGTH('s) - 1)"
    using platform
  proof
    assume L: "LENGTH('s) = 64"
    have sz: "TypeDesc_size debug basesize t = Inr (a * es)"
      by (simp add: TypeDesc_size_def pass L Let_def a_def es_def)
    have "unat a * unat es < 2 ^ LENGTH('s)"
      using P by (simp add: e L)
    then have "unat (a * es) = unat a * E"
      by (simp only: unat_mult_fits e)
    moreover have "unat a * E \<le> 2 ^ LENGTH('s) - 1" using P by (simp add: L)
    ultimately have "unat (a * es) = min (unat a * E) (2 ^ LENGTH('s) - 1)"
      by (simp only: min_def if_True)
    with sz show ?thesis by blast
  next
    assume L: "LENGTH('s) = 32"
    define s where "s = (ucast a :: ulonglong) * ucast es"
    define toobig where "toobig = (- 1 :: 's word)"
    have sz: "TypeDesc_size debug basesize t = Inr (if s < ucast toobig then ucast s else toobig)"
      by (simp add: TypeDesc_size_def pass L Let_def a_def es_def s_def toobig_def)
    have ua: "unat (ucast a :: ulonglong) = unat a"
      by (rule unat_ucast_fits) (use Nb in simp)
    have ue: "unat (ucast es :: ulonglong) = E"
      unfolding e [symmetric] by (rule unat_ucast_fits) (use E e in simp)
    have "unat (ucast a :: ulonglong) * unat (ucast es :: ulonglong) < 2 ^ LENGTH(64)"
      using P by (simp add: ua ue)
    then have us: "unat s = unat a * E"
      unfolding s_def by (simp only: unat_mult_fits ua ue)
    have mx: "unat toobig = 4294967295"
      by (simp add: toobig_def unat_max_size L)
    have ut: "unat (ucast toobig :: ulonglong) = 4294967295"
      by (simp add: unat_ucast_fits mx)
    have "unat (if s < ucast toobig then ucast s else toobig) = min (unat a * E) (2 ^ LENGTH('s) - 1)"
    proof (cases "s < ucast toobig")
      case True
      then have lt: "unat a * E < 4294967295"
        by (simp only: word_less_nat_alt us ut)
      then have "unat (ucast s :: 's word) = unat a * E"
        by (simp add: unat_ucast_fits us L)
      with True lt show ?thesis
        by (simp add: min_def L)
    next
      case False
      then have ge: "4294967295 \<le> unat a * E"
        by (simp only: word_less_nat_alt us ut not_less)
      with False mx show ?thesis
        by (simp add: min_def L)
    qed
    with sz show ?thesis by blast
  qed
  then obtain r where "TypeDesc_size debug basesize t = Inr r"
    and "unat r = min (unat a * unat (aggregate t) * unat (basesize (basetype t))) (2 ^ LENGTH('s) - 1)"
    by (auto simp: E_def mult.assoc)
  with n show ?thesis by blast
qed


theorem size_saturating_product_witness:
  "0 \<le> sint (arraylen (TypeDesc_agg_array DOUBLE MATRIX44 2147483647))
   \<and> unat (basesize_lookup 4 4 8 (basetype (TypeDesc_agg_array DOUBLE MATRIX44 2147483647)) :: 32 word) \<le> 2 ^ 24
   \<and> numelements True (TypeDesc_agg_array DOUBLE MATRIX44 2147483647) = Inr (2147483647 :: 32 word)
   \<and> TypeDesc_size True (basesize_lookup 4 4 8) (TypeDesc_agg_array DOUBLE MATRIX44 2147483647)
        = Inr (4294967295 :: 32 word)
   \<and> unat (basesize_lookup 8 8 8 (basetype (TypeDesc_agg_array DOUBLE MATRIX44 2147483647)) :: 64 word) \<le> 2 ^ 24
   \<and> numelements True (TypeDesc_agg_array DOUBLE MATRIX44 2147483647) = Inr (2147483647 :: 64 word)
   \<and> TypeDesc_size True (basesize_lookup 8 8 8) (TypeDesc_agg_array DOUBLE MATRIX44 2147483647)
        = Inr (274877906816 :: 64 word)"
proof -
  define t where "t = TypeDesc_agg_array DOUBLE MATRIX44 2147483647"
  have f: "basetype t = 12" "aggregate t = 16" "arraylen t = 2147483647"
    by (simp_all add: t_def TypeDesc_agg_array_def TypeDesc_ctor_def TypeDesc_bytes_def)
  have h1: "0 \<le> sint (arraylen t)" by (simp add: f)
  have b32: "basesize_lookup 4 4 8 12 = (8 :: 32 word)"
    and b64: "basesize_lookup 8 8 8 12 = (8 :: 64 word)"
    by (simp_all add: basesize_lookup_def)
  have h32: "unat (basesize_lookup 4 4 8 (basetype t) :: 32 word) \<le> 2 ^ 24"
    and h64: "unat (basesize_lookup 8 8 8 (basetype t) :: 64 word) \<le> 2 ^ 24"
    by (simp_all add: f b32 b64)
  have n32: "numelements True t = Inr (2147483647 :: 32 word)"
    and n64: "numelements True t = Inr (2147483647 :: 64 word)"
    by (simp_all add: numelements_def OIIO_DASSERT_MSG_def f)
  have "LENGTH(32) = 32 \<or> LENGTH(32) = 64" by simp
  from size_saturating_product
    [where basesize = "basesize_lookup 4 4 8 :: uchar \<Rightarrow> 32 word" and t = t and debug = True,
      OF h1 this h32]
  obtain r :: "32 word" where "TypeDesc_size True (basesize_lookup 4 4 8) t = Inr r"
    and "unat r = min (2147483647 * 16 * 8) (2 ^ 32 - 1)"
    by (auto simp: n32 f b32)
  then have s32: "TypeDesc_size True (basesize_lookup 4 4 8) t = Inr (4294967295 :: 32 word)"
    by (simp add: word_unat_eq_iff)
  have "LENGTH(64) = 32 \<or> LENGTH(64) = 64" by simp
  from size_saturating_product
    [where basesize = "basesize_lookup 8 8 8 :: uchar \<Rightarrow> 64 word" and t = t and debug = True,
      OF h1 this h64]
  obtain r :: "64 word" where "TypeDesc_size True (basesize_lookup 8 8 8) t = Inr r"
    and "unat r = min (2147483647 * 16 * 8) (2 ^ 64 - 1)"
    by (auto simp: n64 f b64)
  then have s64: "TypeDesc_size True (basesize_lookup 8 8 8) t = Inr (274877906816 :: 64 word)"
    by (simp add: word_unat_eq_iff)
  from h1 h32 h64 n32 n64 s32 s64 show ?thesis
    unfolding t_def by (intro conjI)
qed

text \<open>
  C4. For a descriptor whose array length is not negative, in either build,
  \<^verbatim>\<open>numelements()\<close> returns normally the larger of the array length and 1, and
  \<^verbatim>\<open>basevalues()\<close> returns that count times the aggregate in \<^verbatim>\<open>size_t\<close> arithmetic,
  which is the exact product whenever the product fits \<^verbatim>\<open>size_t\<close> (always, from 40 bits
  on): the assertion never fires. For a negative array length, in a debug build,
  \<^verbatim>\<open>numelements()\<close>, \<^verbatim>\<open>basevalues()\<close> and \<^verbatim>\<open>size()\<close> all stop at the assertion.
\<close>

theorem numelements_basevalues_checked:
  fixes t :: TypeDesc and basesize :: "uchar \<Rightarrow> 's::len word"
  shows "(0 \<le> sint (arraylen t) \<and> 32 \<le> LENGTH('s) \<longrightarrow>
           (\<exists>n :: 's word. numelements debug t = Inr n
              \<and> int (unat n) = max (sint (arraylen t)) 1
              \<and> basevalues debug t = Inr (n * ucast (aggregate t))
              \<and> (unat n * unat (aggregate t) < 2 ^ LENGTH('s) \<or> 40 \<le> LENGTH('s) \<longrightarrow>
                   unat (n * ucast (aggregate t) :: 's word) = unat n * unat (aggregate t))))
       \<and> (sint (arraylen t) < 0 \<longrightarrow>
            numelements True t = (Inl AssertionFailed :: failure + 's word)
          \<and> basevalues True t = (Inl AssertionFailed :: failure + 's word)
          \<and> TypeDesc_size True basesize t = Inl AssertionFailed)"
proof (intro conjI impI)
  assume h: "0 \<le> sint (arraylen t) \<and> 32 \<le> LENGTH('s)"
  then have nonneg: "0 \<le> sint (arraylen t)" and wide: "32 \<le> LENGTH('s)" by simp_all
  from numelements_ok [OF nonneg wide, of debug]
  obtain n :: "'s word" where n: "numelements debug t = Inr n"
    and N: "unat n = nat (max (sint (arraylen t)) 1)" by blast
  have bv: "basevalues debug t = Inr (n * ucast (aggregate t))"
    by (simp add: basevalues_def n)
  have A: "unat (aggregate t) \<le> 255"
    using unsigned_less [of "aggregate t", where 'a = nat] by simp
  have le: "(256::nat) \<le> 2 ^ LENGTH('s)"
  proof -
    have "(2::nat) ^ 8 \<le> 2 ^ LENGTH('s)"
      by (rule power_increasing) (use wide in simp_all)
    then show ?thesis by simp
  qed
  have u: "unat (ucast (aggregate t) :: 's word) = unat (aggregate t)"
    by (rule unat_ucast_fits) (use A le in linarith)
  have fits: "unat n * unat (aggregate t) < 2 ^ LENGTH('s)" if "40 \<le> LENGTH('s)"
  proof -
    have "sint (arraylen t) < 2 ^ 31" using sint_lt [of "arraylen t"] by simp
    then have "unat n \<le> 2147483648" unfolding N by simp
    then have "unat n * unat (aggregate t) \<le> 2147483648 * 255"
      using A by (intro mult_mono) simp_all
    then have "unat n * unat (aggregate t) < 1099511627776" by simp
    moreover have "(2::nat) ^ 40 \<le> 2 ^ LENGTH('s)"
      by (rule power_increasing) (use that in simp_all)
    then have "(1099511627776::nat) \<le> 2 ^ LENGTH('s)" by simp
    ultimately show ?thesis by (rule less_le_trans)
  qed
  have exact: "unat (n * ucast (aggregate t) :: 's word) = unat n * unat (aggregate t)"
    if "unat n * unat (aggregate t) < 2 ^ LENGTH('s) \<or> 40 \<le> LENGTH('s)"
  proof -
    from that fits have "unat n * unat (aggregate t) < 2 ^ LENGTH('s)" by blast
    then have "unat n * unat (ucast (aggregate t) :: 's word) < 2 ^ LENGTH('s)"
      by (simp only: u)
    then show ?thesis by (simp only: unat_mult_fits u)
  qed
  from N have "int (unat n) = max (sint (arraylen t)) 1" by (simp add: max_def)
  with n bv exact
  show "\<exists>n :: 's word. numelements debug t = Inr n
              \<and> int (unat n) = max (sint (arraylen t)) 1
              \<and> basevalues debug t = Inr (n * ucast (aggregate t))
              \<and> (unat n * unat (aggregate t) < 2 ^ LENGTH('s) \<or> 40 \<le> LENGTH('s) \<longrightarrow>
                   unat (n * ucast (aggregate t) :: 's word) = unat n * unat (aggregate t))"
    by blast
next
  assume neg: "sint (arraylen t) < 0"
  then show "numelements True t = (Inl AssertionFailed :: failure + 's word)"
    by (simp add: numelements_def OIIO_DASSERT_MSG_def)
  then show "basevalues True t = (Inl AssertionFailed :: failure + 's word)"
    by (simp add: basevalues_def)
  from neg show "TypeDesc_size True basesize t = Inl AssertionFailed"
    by (simp add: TypeDesc_size_def OIIO_DASSERT_MSG_def)
qed


theorem numelements_basevalues_checked_witness:
  "0 \<le> sint (arraylen TypeBox3)
   \<and> numelements False TypeBox3 = Inr (2 :: 64 word)
   \<and> basevalues False TypeBox3 = Inr (6 :: 64 word)
   \<and> sint (arraylen (TypeDesc_array FLOAT (- 1))) < 0
   \<and> numelements True (TypeDesc_array FLOAT (- 1)) = (Inl AssertionFailed :: failure + 64 word)
   \<and> basevalues True (TypeDesc_array FLOAT (- 1)) = (Inl AssertionFailed :: failure + 64 word)
   \<and> TypeDesc_size True (basesize_lookup 8 8 8) (TypeDesc_array FLOAT (- 1))
        = (Inl AssertionFailed :: failure + 64 word)"
proof -
  have f: "aggregate TypeBox3 = 3" "arraylen TypeBox3 = 2"
    by (simp_all add: TypeBox3_def TypeDesc_ctor_def TypeDesc_bytes_def)
  have h1: "0 \<le> sint (arraylen TypeBox3) \<and> 32 \<le> LENGTH(64)" by (simp add: f)
  have h2: "sint (arraylen (TypeDesc_array FLOAT (- 1))) < 0"
    by (simp add: TypeDesc_array_def TypeDesc_ctor_def TypeDesc_bytes_def)
  note box = numelements_basevalues_checked
    [where 's = 64 and t = TypeBox3 and debug = False, THEN conjunct1, rule_format, OF h1]
  note unsized = numelements_basevalues_checked
    [where 's = 64 and t = "TypeDesc_array FLOAT (- 1)" and basesize = "basesize_lookup 8 8 8",
      THEN conjunct2, rule_format, OF h2]
  from box obtain n :: "64 word" where n: "numelements False TypeBox3 = Inr n"
    and N: "int (unat n) = max (sint (arraylen TypeBox3)) 1"
    and bv: "basevalues False TypeBox3 = Inr (n * ucast (aggregate TypeBox3))"
    by blast
  from N have "uint n = uint (2 :: 64 word)" by (simp add: f)
  then have "n = 2" by (simp only: word_uint_eq_iff)
  with n bv have "numelements False TypeBox3 = Inr (2 :: 64 word)"
    and "basevalues False TypeBox3 = Inr (6 :: 64 word)"
    by (simp_all add: f)
  with h1 h2 unsized show ?thesis by blast
qed

section \<open>Parsing a type name\<close>

lemma parse_brackets_remaining:
  assumes "parse_brackets rest = Inr (len, remaining)"
  shows "length remaining \<le> length rest"
proof (cases rest)
  case Nil
  with assms show ?thesis by (simp add: parse_brackets_def)
next
  case (Cons c r1)
  show ?thesis
  proof (cases "c = CHR ''[''")
    case False
    with assms Cons show ?thesis by (simp add: parse_brackets_def)
  next
    case True
    let ?r3 = "dropWhile is_blank (dropWhile is_digit (dropWhile is_blank r1))"
    from assms Cons True obtain d where r3: "?r3 = d # remaining"
      by (auto simp: parse_brackets_def Let_def split: list.splits if_splits)
    have "length ?r3 \<le> length (dropWhile is_digit (dropWhile is_blank r1))"
      by (rule length_dropWhile_le)
    also have "\<dots> \<le> length (dropWhile is_blank r1)" by (rule length_dropWhile_le)
    also have "\<dots> \<le> length r1" by (rule length_dropWhile_le)
    finally have "length ?r3 \<le> length r1" .
    with r3 Cons show ?thesis by simp
  qed
qed

lemma keyword_nonempty: "keyword kw w = Some t \<Longrightarrow> w \<noteq> []"
  by (auto simp: keyword_def split: if_splits)

lemma parse_typename_consumed:
  assumes "parse_typename kw s = Inr (t, n)"
  shows "0 < n \<and> n \<le> length s"
proof -
  let ?w = "takeWhile is_name_char s" and ?rest = "dropWhile is_name_char s"
  from assms obtain t0 where k: "keyword kw ?w = Some t0"
    by (auto simp: parse_typename_def split: option.splits)
  with assms obtain len remaining where b: "parse_brackets ?rest = Inr (len, remaining)"
    and n: "n = length s - length remaining"
    by (auto simp: parse_typename_def split: sum.splits)
  from k have "?w \<noteq> []" by (rule keyword_nonempty)
  then have "0 < length ?w" by simp
  moreover have "length ?w + length ?rest = length s"
    by (simp flip: length_append)
  moreover from b have "length remaining \<le> length ?rest" by (rule parse_brackets_remaining)
  ultimately show ?thesis using n by linarith
qed

text \<open>
  C6. Whatever descriptor \<^verbatim>\<open>fromstring\<close> is called on and whatever the input: when
  parsing fails, the descriptor returned is the unknown one and the count is 0, and the
  constructor from a string gives the unknown descriptor; an
  unrecognized keyword and a malformed bracket expression are such failures; a parse that
  succeeds consumes at least one character and no more than the input has, so a count
  of 0 is returned only on failure. The function is total: it returns for every input.
\<close>

theorem fromstring_failure_unknown_zero:
  "(parse_typename kw s = Inl e \<longrightarrow>
        fromstring kw this s = (TypeUnknown, 0) \<and> TypeDesc_of_string kw s = TypeUnknown)
   \<and> (keyword kw (takeWhile is_name_char s) = None \<longrightarrow>
        parse_typename kw s = Inl UnrecognizedKeyword)
   \<and> (keyword kw (takeWhile is_name_char s) = Some t0
        \<and> parse_brackets (dropWhile is_name_char s) = Inl MalformedBracket \<longrightarrow>
        parse_typename kw s = Inl MalformedBracket)
   \<and> (parse_typename kw s = Inr (t, n) \<longrightarrow>
        fromstring kw this s = (t, n) \<and> 0 < n \<and> n \<le> length s)
   \<and> (snd (fromstring kw this s) = 0 \<longrightarrow>
        fromstring kw this s = (TypeUnknown, 0) \<and> (\<exists>e. parse_typename kw s = Inl e))"
proof (intro conjI impI)
  assume "parse_typename kw s = Inl e"
  then show "fromstring kw this s = (TypeUnknown, 0)"
    and "TypeDesc_of_string kw s = TypeUnknown"
    by (simp_all add: fromstring_def TypeDesc_of_string_def)
next
  assume "keyword kw (takeWhile is_name_char s) = None"
  then show "parse_typename kw s = Inl UnrecognizedKeyword" by (simp add: parse_typename_def)
next
  assume "keyword kw (takeWhile is_name_char s) = Some t0
        \<and> parse_brackets (dropWhile is_name_char s) = Inl MalformedBracket"
  then show "parse_typename kw s = Inl MalformedBracket" by (simp add: parse_typename_def)
next
  assume ok: "parse_typename kw s = Inr (t, n)"
  then show "fromstring kw this s = (t, n)" by (simp add: fromstring_def)
  from ok show "0 < n" and "n \<le> length s" using parse_typename_consumed by blast+
next
  assume z: "snd (fromstring kw this s) = 0"
  show "fromstring kw this s = (TypeUnknown, 0)"
  proof (cases "parse_typename kw s")
    case (Inl e)
    then show ?thesis by (simp add: fromstring_def)
  next
    case (Inr r)
    obtain t' n' where r: "r = (t', n')" by (cases r)
    with Inr have "0 < n'" using parse_typename_consumed by blast
    with Inr r z show ?thesis by (simp add: fromstring_def)
  qed
  show "\<exists>e. parse_typename kw s = Inl e"
  proof (cases "parse_typename kw s")
    case (Inl e)
    then show ?thesis by blast
  next
    case (Inr r)
    obtain t' n' where r: "r = (t', n')" by (cases r)
    with Inr have "0 < n'" using parse_typename_consumed by blast
    with Inr r z show ?thesis by (simp add: fromstring_def)
  qed
qed

theorem fromstring_failure_unknown_zero_witness:
  "parse_typename basekeyword_named ''bogus[3]'' = Inl UnrecognizedKeyword
   \<and> fromstring basekeyword_named TypeFloat ''bogus[3]'' = (TypeUnknown, 0)
   \<and> TypeDesc_of_string basekeyword_named ''bogus[3]'' = TypeUnknown
   \<and> parse_typename basekeyword_named ''float[3'' = Inl MalformedBracket
   \<and> fromstring basekeyword_named TypeFloat ''float[3'' = (TypeUnknown, 0)
   \<and> parse_typename basekeyword_named ''float[3]'' = Inr (TypeDesc_array FLOAT 3, 8)
   \<and> fromstring basekeyword_named TypeColor ''float[3]'' = (TypeDesc_array FLOAT 3, 8)"
proof -
  have k1: "keyword basekeyword_named (takeWhile is_name_char ''bogus[3]'') = None"
    by code_simp
  have k2: "keyword basekeyword_named (takeWhile is_name_char ''float[3'') = Some TypeFloat
      \<and> parse_brackets (dropWhile is_name_char ''float[3'') = Inl MalformedBracket"
    by code_simp
  have p3: "parse_typename basekeyword_named ''float[3]'' = Inr (TypeDesc_array FLOAT 3, 8)"
    by code_simp
  note inst = fromstring_failure_unknown_zero [where kw = basekeyword_named]
  from inst [where s = "''bogus[3]''" and this = TypeFloat and e = UnrecognizedKeyword] k1
  have a: "parse_typename basekeyword_named ''bogus[3]'' = Inl UnrecognizedKeyword"
    and b: "fromstring basekeyword_named TypeFloat ''bogus[3]'' = (TypeUnknown, 0)"
    and b': "TypeDesc_of_string basekeyword_named ''bogus[3]'' = TypeUnknown"
    by blast+
  from inst [where s = "''float[3''" and this = TypeFloat and e = MalformedBracket
      and ?t0.0 = TypeFloat] k2
  have c: "parse_typename basekeyword_named ''float[3'' = Inl MalformedBracket"
    and d: "fromstring basekeyword_named TypeFloat ''float[3'' = (TypeUnknown, 0)"
    by blast+
  from inst [where s = "''float[3]''" and this = TypeColor and t = "TypeDesc_array FLOAT 3"
      and n = 8] p3
  have e: "fromstring basekeyword_named TypeColor ''float[3]'' = (TypeDesc_array FLOAT 3, 8)"
    by blast
  from a b b' c d p3 e show ?thesis by (intro conjI)
qed

end
